theory Spec2Isabelle
  imports
    Complex_Main
    "HOL-Library.Word"
    "HOL-Library.AList"
    "HOL-Library.Char_ord"
    "HOL-Library.List_Lexorder"
begin

unbundle bit_operations_syntax

section \<open>Python values and errors\<close>

text \<open>
  The exceptions that \<^verbatim>\<open>retrieve.py\<close> raises itself (\<^verbatim>\<open>RuntimeError\<close> with a message)
  and the ones raised by the Python built-ins and pandas operations it calls.
\<close>

datatype error =
    RuntimeError string
  | KeyError string
  | TypeError string
  | ValueError string
  | IndexError string

text \<open>
  A table cell. \<open>NaN\<close> stands for a missing value (Python's \<^verbatim>\<open>None\<close>, pandas' NaN).
  Scores are floats in the source; only their order is read, so they are reals here.
\<close>

datatype val = Str string | Num real | IntV int | NaN

text \<open>A row is a Python \<^verbatim>\<open>dict\<close> from column name to value, in insertion order.\<close>

type_synonym row = "(string \<times> val) list"

text \<open>\<^verbatim>\<open>row[k] = v\<close>: an existing key keeps its place, a new key goes last.\<close>

definition set_item :: "row \<Rightarrow> string \<Rightarrow> val \<Rightarrow> row" where
  "set_item r k v = AList.update k v r"

definition str_or_none :: "string option \<Rightarrow> val" where
  "str_or_none s = (case s of None \<Rightarrow> NaN | Some x \<Rightarrow> Str x)"

definition float_or_none :: "real option \<Rightarrow> val" where
  "float_or_none s = (case s of None \<Rightarrow> NaN | Some x \<Rightarrow> Num x)"

section \<open>The \<^verbatim>\<open>Feature\<close> flag enumeration\<close>

text \<open>
  \<^verbatim>\<open>class Feature(Flag)\<close>: \<^verbatim>\<open>NONE = 0\<close>, every \<^verbatim>\<open>auto()\<close> is the next power of two,
  the groups are the bitwise or of their members. The thirteen single flags fill
  thirteen bits, so a flag value is a 13-bit word, \<^verbatim>\<open>|\<close> is \<open>OR\<close> and \<^verbatim>\<open>&\<close> is \<open>AND\<close>.
\<close>

type_synonym Feature = "13 word"

definition NONE :: Feature where "NONE = 0"
definition UUID :: Feature where "UUID = 1"
definition INDEX :: Feature where "INDEX = 2"
definition TARGET_HOSTNAME :: Feature where "TARGET_HOSTNAME = 4"
definition TARGET_URI :: Feature where "TARGET_URI = 8"
definition TARGET :: Feature where "TARGET = TARGET_HOSTNAME OR TARGET_URI"
definition PAGE_RANK :: Feature where "PAGE_RANK = 16"
definition SPAM_RANK :: Feature where "SPAM_RANK = 32"
definition RANKS :: Feature where "RANKS = PAGE_RANK OR SPAM_RANK"
definition TITLE_HIGHLIGHTED :: Feature where "TITLE_HIGHLIGHTED = 64"
definition TITLE_TEXT :: Feature where "TITLE_TEXT = 128"
definition TITLE :: Feature where "TITLE = TITLE_HIGHLIGHTED OR TITLE_TEXT"
definition SNIPPET_HIGHLIGHTED :: Feature where "SNIPPET_HIGHLIGHTED = 256"
definition SNIPPET_TEXT :: Feature where "SNIPPET_TEXT = 512"
definition SNIPPET :: Feature where "SNIPPET = SNIPPET_HIGHLIGHTED OR SNIPPET_TEXT"
definition EXPLANATION :: Feature where "EXPLANATION = 1024"
definition HTML :: Feature where "HTML = 2048"
definition HTML_PLAIN :: Feature where "HTML_PLAIN = 4096"
definition ALL' :: Feature where
  "ALL' = UUID OR INDEX OR TARGET OR RANKS OR TITLE OR SNIPPET OR EXPLANATION OR
     HTML OR HTML_PLAIN"

text \<open>
  \<^verbatim>\<open>Flag.__contains__(self, other)\<close> is
  \<^verbatim>\<open>other._value_ & self._value_ == other._value_\<close>.
\<close>

definition flag_contains :: "Feature \<Rightarrow> Feature \<Rightarrow> bool" where
  "flag_contains self other = (other AND self = other)"

text \<open>
  The field \<^verbatim>\<open>features: Union[Feature, Set[Feature]]\<close> holds one flag value or a Python
  set of flag values. \<^verbatim>\<open>x in self.features\<close> is \<^verbatim>\<open>Flag.__contains__\<close> on a flag value
  and set membership (equality of members) on a set.
\<close>

datatype features_cfg = Flag Feature | FlagSet "Feature set"

fun contains :: "features_cfg \<Rightarrow> Feature \<Rightarrow> bool" where
  "contains (Flag F) f = flag_contains F f"
| "contains (FlagSet S) f = (f \<in> S)"

text \<open>
  \<^verbatim>\<open>reduce(lambda a, b: a | b, S)\<close> with no initial value: a \<^verbatim>\<open>TypeError\<close> on an empty
  set, the or of all members otherwise. Python iterates the set in an order of its
  own; \<open>OR\<close> is associative and commutative, so the members are taken in increasing
  order here.
\<close>

definition reduce_or :: "Feature set \<Rightarrow> error + Feature" where
  "reduce_or S =
     (case sorted_list_of_set S of
        [] \<Rightarrow> Inl (TypeError ''reduce() of empty iterable with no initial value'')
      | f # fs \<Rightarrow> Inr (foldl (OR) f fs))"

section \<open>The external search client\<close>

text \<open>
  \<^verbatim>\<open>chatnoir_api.Index\<close> is an enumeration declared outside this repository; the tests
  name these five members. The configuration holds one index or a set of them.
\<close>

datatype Index = ClueWeb09 | ClueWeb12 | ClueWeb22 | CommonCrawl1511 | CommonCrawl1704

fun Index_name :: "Index \<Rightarrow> string" where
  "Index_name ClueWeb09 = ''ClueWeb09''"
| "Index_name ClueWeb12 = ''ClueWeb12''"
| "Index_name ClueWeb22 = ''ClueWeb22''"
| "Index_name CommonCrawl1511 = ''CommonCrawl1511''"
| "Index_name CommonCrawl1704 = ''CommonCrawl1704''"

datatype index_cfg = OneIndex Index | IndexSet "Index set"

text \<open>
  A result of the client, with the attributes that \<^verbatim>\<open>_merge_result\<close> reads:
  \<open>res_index_value\<close> is \<^verbatim>\<open>result.index.value\<close>, \<open>res_title_html\<close> is
  \<^verbatim>\<open>result.title.html\<close>, \<open>res_html_contents plain\<close> is
  \<^verbatim>\<open>result.html_contents(plain=plain)\<close>.
\<close>

record search_result =
  res_trec_id :: "string option"
  res_score :: real
  res_uuid :: string
  res_index_value :: string
  res_target_hostname :: string
  res_target_uri :: string
  res_page_rank :: "real option"
  res_spam_rank :: "real option"
  res_title_html :: string
  res_title_text :: string
  res_snippet_html :: string
  res_snippet_text :: string
  res_explanation :: "string option"
  res_html_contents :: "bool \<Rightarrow> string"

text \<open>
  The two operations of the client, with the keyword arguments of the calls in
  \<^verbatim>\<open>_transform_query\<close>: \<^verbatim>\<open>search(api_key, query, index, explain, page_size)\<close> and
  \<^verbatim>\<open>search_phrases(api_key, query, index, slop, explain, page_size)\<close>.
  The client is a parameter of the model: it answers a request with the sequence of
  its results. Every call is recorded, in order, in a log that the operations return
  beside their result.
\<close>

datatype request =
    search string val index_cfg bool int
  | search_phrases string val index_cfg int bool int

fun req_page_size :: "request \<Rightarrow> int" where
  "req_page_size (search k q i e p) = p"
| "req_page_size (search_phrases k q i s e p) = p"

fun req_explain :: "request \<Rightarrow> bool" where
  "req_explain (search k q i e p) = e"
| "req_explain (search_phrases k q i s e p) = e"

type_synonym client = "request \<Rightarrow> search_result list"

section \<open>Tables\<close>

text \<open>
  A pandas \<^verbatim>\<open>DataFrame\<close>: its column names and its rows. A cell that a row does not
  hold reads as \<open>NaN\<close>.
\<close>

record DataFrame =
  columns :: "string list"
  rows :: "row list"

definition cell :: "row \<Rightarrow> string \<Rightarrow> val" where
  "cell r c = (case map_of r c of None \<Rightarrow> NaN | Some v \<Rightarrow> v)"

text \<open>The distinct elements of a list, in the order of their first occurrence.\<close>

fun first_seen :: "'a list \<Rightarrow> 'a list" where
  "first_seen [] = []"
| "first_seen (x # xs) = x # first_seen (filter (\<lambda>y. y \<noteq> x) xs)"

definition reindex :: "string list \<Rightarrow> row \<Rightarrow> row" where
  "reindex cols r = map (\<lambda>c. (c, cell r c)) cols"

text \<open>
  \<^verbatim>\<open>DataFrame(records)\<close> for a list of dicts: the columns are the keys in the order
  they first occur, and every row is laid out on them.
\<close>

definition DataFrame_of_records :: "row list \<Rightarrow> DataFrame" where
  "DataFrame_of_records rs =
     (let cols = first_seen (concat (map (map fst) rs))
      in \<lparr>columns = cols, rows = map (reindex cols) rs\<rparr>)"

text \<open>\<^verbatim>\<open>topic.to_dict(orient="records")\<close>: one dict per row, keyed by the columns.\<close>

definition to_dict_records :: "DataFrame \<Rightarrow> row list" where
  "to_dict_records df = map (reindex (columns df)) (rows df)"

text \<open>
  \<^verbatim>\<open>sys.maxsize\<close>, the largest index of the interpreter: \<open>2\<^sup>6\<^sup>3 - 1\<close> on a 64-bit
  CPython.
\<close>

definition sys_maxsize :: int where
  "sys_maxsize = 2 ^ 63 - 1"

text \<open>
  \<^verbatim>\<open>islice(results, n)\<close>: a \<^verbatim>\<open>ValueError\<close> for a stop that is negative or above
  \<^verbatim>\<open>sys.maxsize\<close>, the first \<open>n\<close> elements in order otherwise (all of them when there
  are fewer).
\<close>

definition islice :: "'a list \<Rightarrow> int \<Rightarrow> error + 'a list" where
  "islice xs n =
     (if n < 0 \<or> sys_maxsize < n
      then Inl (ValueError ''Stop argument for islice() must be None or an integer: 0 <= x <= sys.maxsize.'')
      else Inr (take (nat n) xs))"

text \<open>The cap of \<^verbatim>\<open>num_results\<close> on a sequence: none, or its first \<open>k\<close> elements.\<close>

definition cap :: "int option \<Rightarrow> 'a list \<Rightarrow> 'a list" where
  "cap n xs = (case n of None \<Rightarrow> xs | Some k \<Rightarrow> take (nat k) xs)"

section \<open>The retriever\<close>

record ChatNoirRetrieve =
  api_key :: string
  index :: index_cfg
  phrases :: bool
  slop :: int
  features :: features_cfg
  filter_unknown :: bool
  num_results :: "int option"
  page_size :: int
  retries :: int
  backoff_seconds :: real
  verbose :: bool

subsection \<open>\<^verbatim>\<open>_merge_result\<close>\<close>

definition merge_result :: "ChatNoirRetrieve \<Rightarrow> row \<Rightarrow> search_result \<Rightarrow> row" where
  "merge_result self row0 result =
     (let row = set_item (set_item row0 ''docno'' (str_or_none (res_trec_id result)))
                  ''score'' (Num (res_score result));
          row = (if contains (features self) UUID
                 then set_item row ''uuid'' (Str (res_uuid result)) else row);
          row = (if contains (features self) INDEX
                 then set_item row ''index'' (Str (res_index_value result)) else row);
          row = (if contains (features self) TARGET_HOSTNAME
                 then set_item row ''target_hostname'' (Str (res_target_hostname result))
                 else row);
          row = (if contains (features self) TARGET_URI
                 then set_item row ''target_uri'' (Str (res_target_uri result)) else row);
          row = (if contains (features self) PAGE_RANK
                 then set_item row ''page_rank'' (float_or_none (res_page_rank result))
                 else row);
          row = (if contains (features self) SPAM_RANK
                 then set_item row ''spam_rank'' (float_or_none (res_spam_rank result))
                 else row);
          row = (if contains (features self) TITLE_HIGHLIGHTED
                 then set_item row ''title_highlighted'' (Str (res_title_html result))
                 else row);
          row = (if contains (features self) TITLE_TEXT
                 then set_item row ''title_text'' (Str (res_title_text result)) else row);
          row = (if contains (features self) SNIPPET_HIGHLIGHTED
                 then set_item row ''snippet_highlighted'' (Str (res_snippet_html result))
                 else row);
          row = (if contains (features self) SNIPPET_TEXT
                 then set_item row ''snippet_text'' (Str (res_snippet_text result))
                 else row);
          row = (if contains (features self) EXPLANATION
                 then set_item row ''explanation'' (str_or_none (res_explanation result))
                 else row);
          row = (if contains (features self) HTML
                 then set_item row ''html'' (Str (res_html_contents result False))
                 else row);
          row = (if contains (features self) HTML_PLAIN
                 then set_item row ''html_plain'' (Str (res_html_contents result True))
                 else row)
      in row)"

subsection \<open>\<^verbatim>\<open>_transform_query\<close>\<close>

text \<open>
  The steps of the source, in its order: the one-row guard, \<^verbatim>\<open>row["query"]\<close> (a
  \<^verbatim>\<open>KeyError\<close> without that column), the page size, the union of a set of flags,
  the call of the client, the filter, the cap, and the table of the merged rows.
  The result is the log of the client calls and the table or the exception.
\<close>

definition effective_page_size :: "ChatNoirRetrieve \<Rightarrow> int" where
  "effective_page_size self =
     (case num_results self of
        Some n \<Rightarrow> min (page_size self) n
      | None \<Rightarrow> page_size self)"

definition effective_features :: "ChatNoirRetrieve \<Rightarrow> error + Feature" where
  "effective_features self =
     (case features self of
        FlagSet S \<Rightarrow> reduce_or S
      | Flag F \<Rightarrow> Inr F)"

definition make_request :: "ChatNoirRetrieve \<Rightarrow> val \<Rightarrow> bool \<Rightarrow> int \<Rightarrow> request" where
  "make_request self query explain psize =
     (if \<not> phrases self
      then search (api_key self) query (index self) explain psize
      else search_phrases (api_key self) query (index self) (slop self) explain psize)"

definition known :: "search_result \<Rightarrow> bool" where
  "known result = (res_trec_id result \<noteq> None)"

definition transform_query ::
  "ChatNoirRetrieve \<Rightarrow> client \<Rightarrow> DataFrame \<Rightarrow> request list \<times> (error + DataFrame)" where
  "transform_query self client topic =
     (if length (rows topic) \<noteq> 1
      then ([], Inl (RuntimeError ''Can only transform one query at a time.''))
      else
        (case to_dict_records topic of
           [] \<Rightarrow> ([], Inl (IndexError ''list index out of range''))
         | row # _ \<Rightarrow>
           (case map_of row ''query'' of
              None \<Rightarrow> ([], Inl (KeyError ''query''))
            | Some query \<Rightarrow>
              (let psize = effective_page_size self in
               case effective_features self of
                 Inl e \<Rightarrow> ([], Inl e)
               | Inr feats \<Rightarrow>
                 (let explain = flag_contains feats EXPLANATION;
                      req = make_request self query explain psize;
                      results = client req;
                      results = (if filter_unknown self then filter known results
                                 else results)
                  in case (case num_results self of
                             Some n \<Rightarrow> islice results n
                           | None \<Rightarrow> Inr results) of
                       Inl e \<Rightarrow> ([req], Inl e)
                     | Inr results \<Rightarrow>
                         ([req], Inr (DataFrame_of_records
                                        (map (merge_result self row) results))))))))"


subsection \<open>pandas operations used by \<^verbatim>\<open>transform\<close>\<close>

text \<open>
  \<^verbatim>\<open>topics.groupby(by=["qid"], as_index=False, sort=False)\<close>: one sub-table per
  distinct query id, in the order the ids first occur, each holding the rows of its
  id in their order. pandas leaves out the rows whose key is missing.
\<close>

definition groupby_qid :: "DataFrame \<Rightarrow> DataFrame list" where
  "groupby_qid topics =
     map (\<lambda>k. topics\<lparr>rows := filter (\<lambda>r. cell r ''qid'' = k) (rows topics)\<rparr>)
       (first_seen (filter (\<lambda>k. k \<noteq> NaN) (map (\<lambda>r. cell r ''qid'') (rows topics))))"

text \<open>
  \<^verbatim>\<open>.apply(f)\<close> calls \<open>f\<close> on every group in order and collects the tables; the
  first exception ends it. The logs of the calls are appended.
\<close>

fun apply_groups ::
  "(DataFrame \<Rightarrow> request list \<times> (error + DataFrame)) \<Rightarrow> DataFrame list
     \<Rightarrow> request list \<times> (error + DataFrame list)" where
  "apply_groups f [] = ([], Inr [])"
| "apply_groups f (g # gs) =
     (case f g of
        (calls, Inl e) \<Rightarrow> (calls, Inl e)
      | (calls, Inr d) \<Rightarrow>
          (case apply_groups f gs of
             (calls', Inl e) \<Rightarrow> (calls @ calls', Inl e)
           | (calls', Inr ds) \<Rightarrow> (calls @ calls', Inr (d # ds))))"

text \<open>
  \<^verbatim>\<open>progress_apply\<close> is \<^verbatim>\<open>apply\<close> with a progress bar: the same calls and the same
  result.
\<close>

definition progress_apply ::
  "(DataFrame \<Rightarrow> request list \<times> (error + DataFrame)) \<Rightarrow> DataFrame list
     \<Rightarrow> request list \<times> (error + DataFrame list)" where
  "progress_apply f gs = apply_groups f gs"

text \<open>
  The tables that \<^verbatim>\<open>apply\<close> collected are concatenated: the columns of all of them
  in the order they first occur, the rows of all of them in order.
\<close>

definition concat_frames :: "DataFrame list \<Rightarrow> DataFrame" where
  "concat_frames ds =
     (let cols = first_seen (concat (map columns ds))
      in \<lparr>columns = cols, rows = map (reindex cols) (concat (map rows ds))\<rparr>)"

text \<open>
  \<^verbatim>\<open>reset_index(drop=True)\<close> renumbers the row labels 0, 1, ...; a row's label is its
  position in this model, so the table is unchanged.
\<close>

definition reset_index :: "DataFrame \<Rightarrow> DataFrame" where
  "reset_index df = df"

fun num_of :: "val \<Rightarrow> real" where
  "num_of (Num x) = x"
| "num_of (IntV i) = of_int i"
| "num_of (Str s) = 0"
| "num_of NaN = 0"

text \<open>
  \<^verbatim>\<open>df.sort_values(by=[c], ascending=False)\<close> without \<^verbatim>\<open>inplace\<close>: a \<^verbatim>\<open>KeyError\<close>
  when there is no such column; otherwise a new table, the rows by descending value
  with the missing values last. The table it is called on is not changed.
\<close>

definition sort_values_descending :: "DataFrame \<Rightarrow> string \<Rightarrow> error + DataFrame" where
  "sort_values_descending df c =
     (if c \<notin> set (columns df) then Inl (KeyError c)
      else Inr (df\<lparr>rows :=
             sort_key (\<lambda>r. - num_of (cell r c)) (filter (\<lambda>r. cell r c \<noteq> NaN) (rows df))
             @ filter (\<lambda>r. cell r c = NaN) (rows df)\<rparr>))"

subsection \<open>The ranking utility \<^verbatim>\<open>add_ranks\<close>\<close>

text \<open>
  Modelled from the spec: \<^verbatim>\<open>pyterrier.model.add_ranks\<close> is the framework's ranking
  utility, not part of this repository. It "assigns a rank column per query group by
  descending score, leaving other columns untouched", "starting at a fixed base (0 in
  the convention used)". Rows of equal score are ranked in their order in the table.
  A row's rank is the base plus the number of rows of its query that come before it in
  that order; the rows stay where they are.
\<close>

definition FIRST_RANK :: int where
  "FIRST_RANK = 0"

definition drop_column :: "string \<Rightarrow> DataFrame \<Rightarrow> DataFrame" where
  "drop_column c df =
     \<lparr>columns = filter (\<lambda>x. x \<noteq> c) (columns df),
      rows = map (filter (\<lambda>kv. fst kv \<noteq> c)) (rows df)\<rparr>"

definition outranks :: "row list \<Rightarrow> nat \<Rightarrow> nat \<Rightarrow> bool" where
  "outranks rs j i =
     (cell (rs ! j) ''qid'' = cell (rs ! i) ''qid'' \<and>
      (num_of (cell (rs ! i) ''score'') < num_of (cell (rs ! j) ''score'') \<or>
       (num_of (cell (rs ! j) ''score'') = num_of (cell (rs ! i) ''score'') \<and> j < i)))"

definition rank_first :: "row list \<Rightarrow> nat \<Rightarrow> nat" where
  "rank_first rs i = length (filter (\<lambda>j. outranks rs j i) [0..<length rs])"

definition add_ranks :: "DataFrame \<Rightarrow> DataFrame" where
  "add_ranks rtr0 =
     (let rtr = drop_column ''rank'' rtr0
      in \<lparr>columns = columns rtr @ [''rank''],
          rows = map (\<lambda>i. set_item (rows rtr ! i) ''rank''
                            (IntV (int (rank_first (rows rtr) i) + FIRST_RANK)))
                   [0..<length (rows rtr)]\<rparr>)"

subsection \<open>\<^verbatim>\<open>transform\<close>\<close>

text \<open>
  The argument of \<^verbatim>\<open>transform\<close> is any Python object: a table, or something that
  \<^verbatim>\<open>isinstance(topics, DataFrame)\<close> rejects.
\<close>

datatype py_input = Table DataFrame | NotATable

text \<open>
  The source calls \<^verbatim>\<open>retrieved.sort_values(by=["score"], ascending=False)\<close> as a
  statement: its exception, if any, is raised, and the sorted table it returns is
  dropped; \<^verbatim>\<open>add_ranks\<close> is given \<^verbatim>\<open>retrieved\<close> itself.
\<close>

definition transform ::
  "ChatNoirRetrieve \<Rightarrow> client \<Rightarrow> py_input \<Rightarrow> request list \<times> (error + DataFrame)" where
  "transform self client inp =
     (case inp of
        NotATable \<Rightarrow> ([], Inl (RuntimeError ''Can only transform dataframes.''))
      | Table topics \<Rightarrow>
          if \<not> {''qid'', ''query''} \<subseteq> set (columns topics)
          then ([], Inl (RuntimeError ''Needs qid and query columns.''))
          else if length (rows topics) = 0
          then transform_query self client topics
          else
            (case (if verbose self
                   then progress_apply (transform_query self client) (groupby_qid topics)
                   else apply_groups (transform_query self client) (groupby_qid topics)) of
               (calls, Inl e) \<Rightarrow> (calls, Inl e)
             | (calls, Inr topics_by_query) \<Rightarrow>
                 (let retrieved = reset_index (concat_frames topics_by_query)
                  in case sort_values_descending retrieved ''score'' of
                       Inl e \<Rightarrow> (calls, Inl e)
                     | Inr sorted_copy \<Rightarrow> (calls, Inr (add_ranks retrieved)))))"

subsection \<open>\<^verbatim>\<open>__hash__\<close>\<close>

text \<open>
  The Python objects that \<^verbatim>\<open>__hash__\<close> builds. The built-in \<^verbatim>\<open>hash\<close> raises a
  \<^verbatim>\<open>TypeError\<close> on a list and on a tuple that holds one, and is a function \<open>H\<close> of
  the object otherwise.
\<close>

datatype pyobj =
    PStr string
  | PInt int
  | PBool bool
  | PFloat real
  | PNone
  | PIndex Index
  | PFeature Feature
  | PTuple "pyobj list"
  | PList "pyobj list"

fun hashable :: "pyobj \<Rightarrow> bool" where
  "hashable (PList xs) = False"
| "hashable (PTuple xs) = list_all hashable xs"
| "hashable x = True"

definition builtin_hash :: "(pyobj \<Rightarrow> int) \<Rightarrow> pyobj \<Rightarrow> error + int" where
  "builtin_hash H x =
     (if hashable x then Inr (H x) else Inl (TypeError ''unhashable type: list''))"

text \<open>
  \<^verbatim>\<open>sorted(self.index, key=lambda index: index.name)\<close>: the members of the set by name.
\<close>

definition sorted_indices :: "Index set \<Rightarrow> Index list" where
  "sorted_indices S =
     sort_key Index_name
       (filter (\<lambda>i. i \<in> S)
          [ClueWeb09, ClueWeb12, ClueWeb22, CommonCrawl1511, CommonCrawl1704])"

text \<open>
  \<^verbatim>\<open>sorted(self.features)\<close> compares the members with \<^verbatim>\<open><\<close>, which \<^verbatim>\<open>Flag\<close> does not
  define: a \<^verbatim>\<open>TypeError\<close> as soon as two members are compared. With at most one
  member nothing is compared.
\<close>

definition sorted_features :: "Feature set \<Rightarrow> error + Feature list" where
  "sorted_features S =
     (if 1 < card S
      then Inl (TypeError ''< not supported between instances of Feature and Feature'')
      else Inr (sorted_list_of_set S))"

definition hash_key :: "ChatNoirRetrieve \<Rightarrow> error + pyobj" where
  "hash_key self =
     (let idx = (case index self of
                   IndexSet S \<Rightarrow> PTuple (map PIndex (sorted_indices S))
                 | OneIndex i \<Rightarrow> PIndex i)
      in case (case features self of
                 FlagSet S \<Rightarrow>
                   (case sorted_features S of
                      Inl e \<Rightarrow> Inl e
                    | Inr fs \<Rightarrow> Inr (PList (map PFeature fs)))
               | Flag F \<Rightarrow> Inr (PFeature F)) of
           Inl e \<Rightarrow> Inl e
         | Inr feats \<Rightarrow>
             Inr (PTuple
               [PStr (api_key self), idx, PBool (phrases self), PInt (slop self), feats,
                PBool (filter_unknown self),
                (case num_results self of None \<Rightarrow> PNone | Some n \<Rightarrow> PInt n),
                PInt (page_size self), PInt (retries self), PFloat (backoff_seconds self),
                PBool (verbose self)]))"

definition dunder_hash :: "(pyobj \<Rightarrow> int) \<Rightarrow> ChatNoirRetrieve \<Rightarrow> error + int" where
  "dunder_hash H self =
     (case hash_key self of
        Inl e \<Rightarrow> Inl e
      | Inr k \<Rightarrow> builtin_hash H k)"

section \<open>Example inputs\<close>

definition example_result :: "string option \<Rightarrow> real \<Rightarrow> search_result" where
  "example_result docno s =
     \<lparr>res_trec_id = docno, res_score = s, res_uuid = ''u'', res_index_value = ''cw12'',
      res_target_hostname = ''example.org'', res_target_uri = ''https://example.org/'',
      res_page_rank = None, res_spam_rank = None, res_title_html = ''<em>t</em>'',
      res_title_text = ''t'', res_snippet_html = ''<em>s</em>'', res_snippet_text = ''s'',
      res_explanation = None, res_html_contents = (\<lambda>plain. ''h'')\<rparr>"

text \<open>A client that answers every query with the same five results, the second unknown.\<close>

definition example_client :: client where
  "example_client req =
     [example_result (Some ''d1'') 9, example_result None 8, example_result (Some ''d3'') 7,
      example_result (Some ''d4'') 6, example_result (Some ''d5'') 5]"

definition example_topic :: DataFrame where
  "example_topic =
     \<lparr>columns = [''qid'', ''query''],
      rows = [[(''qid'', Str ''1''), (''query'', Str ''python library'')]]\<rparr>"

definition example_retriever :: ChatNoirRetrieve where
  "example_retriever =
     \<lparr>api_key = ''key'', index = OneIndex ClueWeb12, phrases = False, slop = 0,
      features = Flag TITLE_TEXT, filter_unknown = True, num_results = Some 3,
      page_size = 100, retries = 3, backoff_seconds = 1, verbose = False\<rparr>"

text \<open>
  A client whose answer depends on the query: one result of score 1 for
  \<^verbatim>\<open>python library\<close>, one result of score 2 for any other query.
\<close>

definition score_client :: client where
  "score_client req =
     (case req of
        search k q i e p \<Rightarrow>
          (if q = Str ''python library'' then [example_result (Some ''d1'') 1]
           else [example_result (Some ''d2'') 2])
      | search_phrases k q i s e p \<Rightarrow> [])"

text \<open>Batches: two queries; the query ids 1, 1, 2; the query ids 1, 1.\<close>

definition two_topics :: DataFrame where
  "two_topics =
     \<lparr>columns = [''qid'', ''query''],
      rows = [[(''qid'', Str ''1''), (''query'', Str ''python library'')],
              [(''qid'', Str ''2''), (''query'', Str ''search engine'')]]\<rparr>"

definition duplicate_topics :: DataFrame where
  "duplicate_topics =
     \<lparr>columns = [''qid'', ''query''],
      rows = [[(''qid'', Str ''1''), (''query'', Str ''python library'')],
              [(''qid'', Str ''1''), (''query'', Str ''python library'')],
              [(''qid'', Str ''2''), (''query'', Str ''search engine'')]]\<rparr>"

definition repeated_topics :: DataFrame where
  "repeated_topics =
     \<lparr>columns = [''qid'', ''query''],
      rows = [[(''qid'', Str ''1''), (''query'', Str ''python library'')],
              [(''qid'', Str ''1''), (''query'', Str ''search engine'')]]\<rparr>"

section \<open>Basic facts\<close>

lemmas Feature_defs =
  NONE_def UUID_def INDEX_def TARGET_HOSTNAME_def TARGET_URI_def TARGET_def
  PAGE_RANK_def SPAM_RANK_def RANKS_def TITLE_HIGHLIGHTED_def TITLE_TEXT_def TITLE_def
  SNIPPET_HIGHLIGHTED_def SNIPPET_TEXT_def SNIPPET_def EXPLANATION_def HTML_def
  HTML_PLAIN_def ALL'_def

lemmas example_defs =
  example_result_def example_client_def example_topic_def example_retriever_def
  score_client_def two_topics_def duplicate_topics_def repeated_topics_def

subsection \<open>Rows and tables\<close>

lemma set_first_seen: "set (first_seen xs) = set xs"
  by (induction xs rule: first_seen.induct) auto

lemma map_of_reindex:
  "map_of (reindex cols r) c = (if c \<in> set cols then Some (cell r c) else None)"
  by (induction cols) (auto simp: reindex_def)

lemma cell_reindex: "cell (reindex cols r) c = (if c \<in> set cols then cell r c else NaN)"
  by (simp add: cell_def map_of_reindex)

lemma map_of_set_item: "map_of (set_item r k v) = (map_of r)(k \<mapsto> v)"
  by (simp add: set_item_def update_conv')

lemma map_of_cond_set_item:
  "k' \<noteq> k \<Longrightarrow> map_of (if b then set_item r k v else r) k' = map_of r k'"
  by (simp add: map_of_set_item)

lemma map_of_merge_result_docno:
  "map_of (merge_result self row r) ''docno'' = Some (str_or_none (res_trec_id r))"
  by (simp add: merge_result_def Let_def map_of_cond_set_item map_of_set_item split del: if_split)

lemma map_of_merge_result_score:
  "map_of (merge_result self row r) ''score'' = Some (Num (res_score r))"
  by (simp add: merge_result_def Let_def map_of_cond_set_item map_of_set_item split del: if_split)



lemma rows_DataFrame_of_records:
  "rows (DataFrame_of_records rs) = map (reindex (columns (DataFrame_of_records rs))) rs"
  by (simp add: DataFrame_of_records_def Let_def)

lemma columns_DataFrame_of_records:
  "set (columns (DataFrame_of_records rs)) = (\<Union>r \<in> set rs. fst ` set r)"
  by (auto simp: DataFrame_of_records_def Let_def set_first_seen)

lemma cell_DataFrame_of_records:
  assumes "r \<in> set rs" and "map_of r c = Some v"
  shows "cell (reindex (columns (DataFrame_of_records rs)) r) c = v"
proof -
  from assms(2) have "c \<in> fst ` set r"
    by (metis domI dom_map_of_conv_image_fst)
  with assms(1) have "c \<in> set (columns (DataFrame_of_records rs))"
    by (auto simp: columns_DataFrame_of_records)
  then have "cell (reindex (columns (DataFrame_of_records rs)) r) c = cell r c"
    by (simp add: cell_reindex)
  with assms(2) show ?thesis by (simp add: cell_def)
qed

lemma docno_DataFrame_of_records:
  "map (\<lambda>r. cell r ''docno'') (rows (DataFrame_of_records (map (merge_result self row) rs)))
     = map (\<lambda>r. str_or_none (res_trec_id r)) rs"
  by (simp add: rows_DataFrame_of_records cell_DataFrame_of_records [OF _ map_of_merge_result_docno])

lemma score_DataFrame_of_records:
  "map (\<lambda>r. cell r ''score'') (rows (DataFrame_of_records (map (merge_result self row) rs)))
     = map (\<lambda>r. Num (res_score r)) rs"
  by (simp add: rows_DataFrame_of_records cell_DataFrame_of_records [OF _ map_of_merge_result_score])

subsection \<open>The per-query transform\<close>

lemma effective_features_ok:
  "features self \<noteq> FlagSet {} \<Longrightarrow> \<exists>F. effective_features self = Inr F"
  by (cases "features self") (auto simp: effective_features_def reduce_or_def split: list.splits)

lemma effective_features_empty:
  "features self = FlagSet {} \<Longrightarrow>
     effective_features self = Inl (TypeError ''reduce() of empty iterable with no initial value'')"
  by (simp add: effective_features_def reduce_or_def)

lemma to_dict_records_single:
  "rows topic = [r] \<Longrightarrow> to_dict_records topic = [reindex (columns topic) r]"
  by (simp add: to_dict_records_def)

lemma transform_query_success:
  assumes "length (rows topic) = 1" and "''query'' \<in> set (columns topic)"
    and "effective_features self = Inr F"
    and "case num_results self of None \<Rightarrow> True | Some n \<Rightarrow> 0 \<le> n \<and> n \<le> sys_maxsize"
  shows "transform_query self client topic =
    (let row = hd (to_dict_records topic);
         req = make_request self (cell row ''query'') (flag_contains F EXPLANATION)
                 (effective_page_size self)
     in ([req], Inr (DataFrame_of_records (map (merge_result self row)
           (cap (num_results self)
              (if filter_unknown self then filter known (client req) else client req))))))"
proof -
  from assms(1) obtain r where r: "rows topic = [r]"
    by (cases "rows topic") auto
  show ?thesis
    using assms(2-4)
    by (auto simp: transform_query_def r to_dict_records_single map_of_reindex cell_reindex Let_def islice_def cap_def
        split: option.splits)
qed



lemma transform_query_calls:
  "fst (transform_query self client topic) = [] \<or>
   (\<exists>F. fst (transform_query self client topic) =
      [make_request self (cell (hd (to_dict_records topic)) ''query'') (flag_contains F EXPLANATION)
                 (effective_page_size self)])"
  by (auto simp: transform_query_def Let_def cell_def split: list.splits option.splits sum.splits)

lemma req_page_size_make_request: "req_page_size (make_request self q e p) = p"
  by (simp add: make_request_def)

text \<open>
  Claim C6. Every call of the search client that the per-query transform makes carries
  the page size \<open>min page_size num_results\<close> when a result cap is set and \<open>page_size\<close>
  when there is none; on a one-row topic with a query column and a feature
  configuration other than the empty set, exactly one call is made.
\<close>

theorem transform_query_page_size:
  "(\<forall>req \<in> set (fst (transform_query self client topic)).
      req_page_size req =
        (case num_results self of
           Some n \<Rightarrow> min (page_size self) n
         | None \<Rightarrow> page_size self)) \<and>
   (length (rows topic) = 1 \<and> ''query'' \<in> set (columns topic) \<and> features self \<noteq> FlagSet {}
      \<longrightarrow> length (fst (transform_query self client topic)) = 1)"
proof (intro conjI impI ballI)
  fix req assume "req \<in> set (fst (transform_query self client topic))"
  with transform_query_calls [of self client topic]
  show "req_page_size req =
        (case num_results self of Some n \<Rightarrow> min (page_size self) n | None \<Rightarrow> page_size self)"
    by (auto simp: req_page_size_make_request effective_page_size_def)
next
  assume a: "length (rows topic) = 1 \<and> ''query'' \<in> set (columns topic) \<and> features self \<noteq> FlagSet {}"
  then obtain F where F: "effective_features self = Inr F"
    using effective_features_ok by blast
  from a obtain r where r: "rows topic = [r]"
    by (cases "rows topic") auto
  show "length (fst (transform_query self client topic)) = 1"
    using a F
    by (auto simp: transform_query_def r to_dict_records_single map_of_reindex Let_def
        split: option.splits sum.splits)
qed

theorem transform_query_page_size_witness:
  "length (rows example_topic) = 1 \<and> ''query'' \<in> set (columns example_topic) \<and>
   features example_retriever \<noteq> FlagSet {} \<and>
   map req_page_size (fst (transform_query example_retriever example_client example_topic)) = [3] \<and>
   map req_page_size (fst (transform_query (example_retriever\<lparr>num_results := None\<rparr>)
      example_client example_topic)) = [100]"
proof -
  have h: "length (rows example_topic) = 1 \<and> ''query'' \<in> set (columns example_topic) \<and>
   features example_retriever \<noteq> FlagSet {}"
    by (simp add: example_defs)
  have h': "length (rows example_topic) = 1 \<and> ''query'' \<in> set (columns example_topic) \<and>
   features (example_retriever\<lparr>num_results := None\<rparr>) \<noteq> FlagSet {}"
    by (simp add: example_defs)
  have n: "num_results example_retriever = Some 3" "page_size example_retriever = 100"
     "num_results (example_retriever\<lparr>num_results := None\<rparr>) = None"
    "page_size (example_retriever\<lparr>num_results := None\<rparr>) = 100"
    by (simp_all add: example_defs)
  from transform_query_page_size [of example_retriever example_client example_topic] h
  obtain req where "fst (transform_query example_retriever example_client example_topic) = [req]"
    and "req_page_size req = 3"
    by (auto simp: n length_Suc_conv)
  moreover
  from transform_query_page_size [of "example_retriever\<lparr>num_results := None\<rparr>" example_client example_topic] h'
  obtain req' where "fst (transform_query (example_retriever\<lparr>num_results := None\<rparr>) example_client example_topic) = [req']"
    and "req_page_size req' = 100"
    by (auto simp: n length_Suc_conv)
  ultimately show ?thesis using h by simp
qed


text \<open>
  On a one-row topic with a query column, with features other than the empty set and a
  cap that is absent or between 0 and \<^verbatim>\<open>sys.maxsize\<close>, the per-query transform makes
  one call and returns the table of the merged rows of the filtered, capped results.
  These are the only calls that return a table.
\<close>

lemma transform_query_rows:
  assumes "length (rows topic) = 1" and "''query'' \<in> set (columns topic)"
    and "features self \<noteq> FlagSet {}"
    and "case num_results self of None \<Rightarrow> True | Some n \<Rightarrow> 0 \<le> n \<and> n \<le> sys_maxsize"
  shows "\<exists>req. transform_query self client topic =
     ([req], Inr (DataFrame_of_records (map (merge_result self (hd (to_dict_records topic)))
           (cap (num_results self)
              (if filter_unknown self then filter known (client req) else client req)))))"
proof -
  from assms(3) obtain F where "effective_features self = Inr F"
    using effective_features_ok by blast
  from transform_query_success [OF assms(1,2) this assms(4)] show ?thesis
    by (auto simp: Let_def)
qed

lemma transform_query_Inr_valid:
  assumes "transform_query self client topic = (c, Inr d)"
  shows "length (rows topic) = 1 \<and> ''query'' \<in> set (columns topic) \<and>
     features self \<noteq> FlagSet {} \<and>
     (case num_results self of None \<Rightarrow> True | Some n \<Rightarrow> 0 \<le> n \<and> n \<le> sys_maxsize)"
proof -
  from assms have len: "length (rows topic) = 1"
    by (auto simp: transform_query_def split: if_splits)
  then obtain r where r: "rows topic = [r]"
    by (cases "rows topic") auto
  from assms have q: "''query'' \<in> set (columns topic)"
    by (auto simp: transform_query_def r to_dict_records_single map_of_reindex
        split: option.splits if_splits)
  have f: "features self \<noteq> FlagSet {}"
  proof
    assume "features self = FlagSet {}"
    from effective_features_empty [OF this] assms q show False
      by (simp add: transform_query_def r to_dict_records_single map_of_reindex Let_def)
  qed
  then obtain F where F: "effective_features self = Inr F"
    using effective_features_ok by blast
  from assms q have "case num_results self of None \<Rightarrow> True
      | Some n \<Rightarrow> 0 \<le> n \<and> n \<le> sys_maxsize"
    by (auto simp: transform_query_def r to_dict_records_single map_of_reindex Let_def F
        islice_def split: option.splits if_splits)
  with len q f show ?thesis by blast
qed

text \<open>
  Claim C7. A per-query transform call on a one-row topic with a query column, with
  features other than the empty set and a cap that is absent or between 0 and
  \<^verbatim>\<open>sys.maxsize\<close>, returns a table. In every table that the per-query transform
  returns: with \<open>filter_unknown\<close> set, the document ids of the output rows are those of
  the results that have one, in their order, cut by the cap after the filter, and no
  output row has a missing document id; with \<open>filter_unknown\<close> unset, the output rows
  are the results cut by the cap, the unknown ones among them.
\<close>

theorem transform_query_filter_unknown:
  "(length (rows topic) = 1 \<and> ''query'' \<in> set (columns topic) \<and>
    features self \<noteq> FlagSet {} \<and>
    (case num_results self of None \<Rightarrow> True | Some n \<Rightarrow> 0 \<le> n \<and> n \<le> sys_maxsize)
      \<longrightarrow> (\<exists>req out. transform_query self client topic = ([req], Inr out))) \<and>
   (\<forall>calls out. transform_query self client topic = (calls, Inr out) \<longrightarrow>
      (\<exists>req. calls = [req] \<and>
         (filter_unknown self \<longrightarrow>
            map (\<lambda>r. cell r ''docno'') (rows out) =
              map (\<lambda>r. str_or_none (res_trec_id r))
                (cap (num_results self)
                   (filter (\<lambda>r. res_trec_id r \<noteq> None) (client req))) \<and>
            NaN \<notin> set (map (\<lambda>r. cell r ''docno'') (rows out))) \<and>
         (\<not> filter_unknown self \<longrightarrow>
            map (\<lambda>r. cell r ''docno'') (rows out) =
              map (\<lambda>r. str_or_none (res_trec_id r)) (cap (num_results self) (client req)))))"
proof (intro conjI allI impI)
  assume "length (rows topic) = 1 \<and> ''query'' \<in> set (columns topic) \<and>
    features self \<noteq> FlagSet {} \<and>
    (case num_results self of None \<Rightarrow> True | Some n \<Rightarrow> 0 \<le> n \<and> n \<le> sys_maxsize)"
  then show "\<exists>req out. transform_query self client topic = ([req], Inr out)"
    using transform_query_rows [of topic self client] by blast
next
  fix calls out
  assume t: "transform_query self client topic = (calls, Inr out)"
  from transform_query_Inr_valid [OF t]
  have v: "length (rows topic) = 1" "''query'' \<in> set (columns topic)"
    "features self \<noteq> FlagSet {}"
    "case num_results self of None \<Rightarrow> True | Some n \<Rightarrow> 0 \<le> n \<and> n \<le> sys_maxsize"
    by blast+
  from transform_query_rows [OF v] obtain req where
    req: "transform_query self client topic =
     ([req], Inr (DataFrame_of_records (map (merge_result self (hd (to_dict_records topic)))
           (cap (num_results self)
              (if filter_unknown self then filter known (client req) else client req)))))"
    by blast
  have k: "filter known xs = filter (\<lambda>r. res_trec_id r \<noteq> None) xs" for xs
    by (simp add: known_def [abs_def])
  have "set (cap n xs) \<subseteq> set xs" for n and xs :: "search_result list"
    by (auto simp: cap_def split: option.splits dest: in_set_takeD)
  then have "NaN \<notin> set (map (\<lambda>r. str_or_none (res_trec_id r))
            (cap (num_results self) (filter (\<lambda>r. res_trec_id r \<noteq> None) (client req))))"
    by (fastforce simp: str_or_none_def split: option.splits)
  with req t show "\<exists>req. calls = [req] \<and>
         (filter_unknown self \<longrightarrow>
            map (\<lambda>r. cell r ''docno'') (rows out) =
              map (\<lambda>r. str_or_none (res_trec_id r))
                (cap (num_results self)
                   (filter (\<lambda>r. res_trec_id r \<noteq> None) (client req))) \<and>
            NaN \<notin> set (map (\<lambda>r. cell r ''docno'') (rows out))) \<and>
         (\<not> filter_unknown self \<longrightarrow>
            map (\<lambda>r. cell r ''docno'') (rows out) =
              map (\<lambda>r. str_or_none (res_trec_id r)) (cap (num_results self) (client req)))"
    by (auto simp: docno_DataFrame_of_records k simp del: set_map)
qed

theorem transform_query_filter_unknown_witness:
  "length (rows example_topic) = 1 \<and> ''query'' \<in> set (columns example_topic) \<and>
   features example_retriever \<noteq> FlagSet {} \<and>
   (\<exists>req out. transform_query example_retriever example_client example_topic = ([req], Inr out) \<and>
      map (\<lambda>r. cell r ''docno'') (rows out) = [Str ''d1'', Str ''d3'', Str ''d4'']) \<and>
   (\<exists>req out. transform_query (example_retriever\<lparr>filter_unknown := False\<rparr>) example_client
        example_topic = ([req], Inr out) \<and>
      map (\<lambda>r. cell r ''docno'') (rows out) = [Str ''d1'', NaN, Str ''d3''])"
proof -
  let ?off = "example_retriever\<lparr>filter_unknown := False\<rparr>"
  have h: "length (rows example_topic) = 1" "''query'' \<in> set (columns example_topic)"
    "features example_retriever \<noteq> FlagSet {}"
    by (simp_all add: example_defs)
  have on: "length (rows example_topic) = 1 \<and> ''query'' \<in> set (columns example_topic) \<and>
    features example_retriever \<noteq> FlagSet {} \<and>
    (case num_results example_retriever of None \<Rightarrow> True
     | Some n \<Rightarrow> 0 \<le> n \<and> n \<le> sys_maxsize)"
    by (simp add: example_defs sys_maxsize_def)
  have off: "length (rows example_topic) = 1 \<and> ''query'' \<in> set (columns example_topic) \<and>
    features ?off \<noteq> FlagSet {} \<and>
    (case num_results ?off of None \<Rightarrow> True | Some n \<Rightarrow> 0 \<le> n \<and> n \<le> sys_maxsize)"
    by (simp add: example_defs sys_maxsize_def)
  note th_on = transform_query_filter_unknown [of example_topic example_retriever example_client]
  note th_off = transform_query_filter_unknown [of example_topic ?off example_client]
  from th_on on obtain req out where
    t: "transform_query example_retriever example_client example_topic = ([req], Inr out)"
    by blast
  with th_on obtain req' where "filter_unknown example_retriever \<longrightarrow>
      map (\<lambda>r. cell r ''docno'') (rows out) =
        map (\<lambda>r. str_or_none (res_trec_id r))
          (cap (num_results example_retriever)
             (filter (\<lambda>r. res_trec_id r \<noteq> None) (example_client req')))"
    by blast
  then have d: "map (\<lambda>r. cell r ''docno'') (rows out) = [Str ''d1'', Str ''d3'', Str ''d4'']"
    by (simp add: example_defs cap_def str_or_none_def)
  from th_off off obtain req2 out2 where
    t2: "transform_query ?off example_client example_topic = ([req2], Inr out2)"
    by blast
  with th_off obtain req2' where "\<not> filter_unknown ?off \<longrightarrow>
      map (\<lambda>r. cell r ''docno'') (rows out2) =
        map (\<lambda>r. str_or_none (res_trec_id r)) (cap (num_results ?off) (example_client req2'))"
    by blast
  then have d2: "map (\<lambda>r. cell r ''docno'') (rows out2) = [Str ''d1'', NaN, Str ''d3'']"
    by (simp add: example_defs cap_def str_or_none_def)
  from t d have e1: "\<exists>req out.
      transform_query example_retriever example_client example_topic = ([req], Inr out) \<and>
      map (\<lambda>r. cell r ''docno'') (rows out) = [Str ''d1'', Str ''d3'', Str ''d4'']"
    by (intro exI [of _ req] exI [of _ out] conjI)
  from t2 d2 have e2: "\<exists>req out.
      transform_query ?off example_client example_topic = ([req], Inr out) \<and>
      map (\<lambda>r. cell r ''docno'') (rows out) = [Str ''d1'', NaN, Str ''d3'']"
    by (intro exI [of _ req2] exI [of _ out2] conjI)
  from h e1 e2 show ?thesis
    by (intro conjI)
qed

text \<open>
  Claim C8, as stated, fails: the cap \<open>2\<^sup>6\<^sup>3\<close> is not negative, and \<^verbatim>\<open>islice\<close>
  rejects it, so the per-query transform raises and returns no table.
\<close>

theorem transform_query_cap_above_maxsize_raises:
  "(0::int) \<le> 2 ^ 63 \<and>
   transform_query (example_retriever\<lparr>num_results := Some (2 ^ 63)\<rparr>) example_client
     example_topic =
     ([search ''key'' (Str ''python library'') (OneIndex ClueWeb12) False 100],
      Inl (ValueError ''Stop argument for islice() must be None or an integer: 0 <= x <= sys.maxsize.''))"
  by (simp add: transform_query_def to_dict_records_def reindex_def cell_def
      effective_page_size_def effective_features_def make_request_def islice_def
      sys_maxsize_def flag_contains_def Feature_defs example_defs Let_def)

text \<open>
  Claim C8, amended. With a result cap \<open>n\<close> between 0 and \<^verbatim>\<open>sys.maxsize\<close>, a per-query
  transform call on a one-row topic with a query column and features other than the
  empty set returns a table. Every table that the per-query transform returns under a
  cap \<open>n\<close> has at most \<open>n\<close> rows: the first \<open>n\<close> results of the (filtered) sequence in
  its order, and all of them when there are no more than \<open>n\<close>. With a cap above
  \<^verbatim>\<open>sys.maxsize\<close> such a call makes its request and raises the \<^verbatim>\<open>ValueError\<close> of
  \<^verbatim>\<open>islice\<close>.
\<close>

theorem transform_query_result_cap:
  assumes "num_results self = Some n"
  shows
    "(length (rows topic) = 1 \<and> ''query'' \<in> set (columns topic) \<and>
      features self \<noteq> FlagSet {} \<and> 0 \<le> n \<and> n \<le> sys_maxsize
        \<longrightarrow> (\<exists>req out. transform_query self client topic = ([req], Inr out))) \<and>
     (\<forall>calls out. transform_query self client topic = (calls, Inr out) \<longrightarrow>
        int (length (rows out)) \<le> n \<and>
        (\<exists>req. calls = [req] \<and>
           map (\<lambda>r. cell r ''docno'') (rows out) =
             map (\<lambda>r. str_or_none (res_trec_id r))
               (take (nat n)
                  (if filter_unknown self then filter known (client req) else client req)) \<and>
           map (\<lambda>r. cell r ''score'') (rows out) =
             map (\<lambda>r. Num (res_score r))
               (take (nat n)
                  (if filter_unknown self then filter known (client req) else client req)) \<and>
           (int (length (if filter_unknown self then filter known (client req)
                         else client req)) \<le> n
              \<longrightarrow> length (rows out) =
                    length (if filter_unknown self then filter known (client req)
                            else client req)))) \<and>
     (length (rows topic) = 1 \<and> ''query'' \<in> set (columns topic) \<and>
      features self \<noteq> FlagSet {} \<and> sys_maxsize < n
        \<longrightarrow> (\<exists>req. transform_query self client topic =
              ([req], Inl (ValueError ''Stop argument for islice() must be None or an integer: 0 <= x <= sys.maxsize.''))))"
proof (intro conjI allI impI)
  assume "length (rows topic) = 1 \<and> ''query'' \<in> set (columns topic) \<and>
      features self \<noteq> FlagSet {} \<and> 0 \<le> n \<and> n \<le> sys_maxsize"
  with assms show "\<exists>req out. transform_query self client topic = ([req], Inr out)"
    using transform_query_rows [of topic self client] by auto
next
  fix calls out
  assume t: "transform_query self client topic = (calls, Inr out)"
  from transform_query_Inr_valid [OF t]
  have v: "length (rows topic) = 1" "''query'' \<in> set (columns topic)"
    "features self \<noteq> FlagSet {}"
    "case num_results self of None \<Rightarrow> True | Some n \<Rightarrow> 0 \<le> n \<and> n \<le> sys_maxsize"
    by blast+
  from v(4) assms have n: "0 \<le> n"
    by simp
  from transform_query_rows [OF v] obtain req where
    req: "transform_query self client topic =
     ([req], Inr (DataFrame_of_records (map (merge_result self (hd (to_dict_records topic)))
           (cap (num_results self)
              (if filter_unknown self then filter known (client req) else client req)))))"
    by blast
  let ?stream = "if filter_unknown self then filter known (client req) else client req"
  let ?out = "DataFrame_of_records (map (merge_result self (hd (to_dict_records topic)))
           (take (nat n) ?stream))"
  have out: "calls = [req]" "out = ?out"
    using req t assms by (simp_all add: cap_def)
  have len: "length (rows ?out) = min (length ?stream) (nat n)"
    by (simp add: rows_DataFrame_of_records)
  show "int (length (rows out)) \<le> n"
    using n unfolding out len by linarith
  have "int (length ?stream) \<le> n \<longrightarrow> length (rows ?out) = length ?stream"
    unfolding len by linarith
  moreover have "map (\<lambda>r. cell r ''docno'') (rows ?out) =
       map (\<lambda>r. str_or_none (res_trec_id r)) (take (nat n) ?stream)"
    by (rule docno_DataFrame_of_records)
  moreover have "map (\<lambda>r. cell r ''score'') (rows ?out) =
       map (\<lambda>r. Num (res_score r)) (take (nat n) ?stream)"
    by (rule score_DataFrame_of_records)
  ultimately show "\<exists>req. calls = [req] \<and>
           map (\<lambda>r. cell r ''docno'') (rows out) =
             map (\<lambda>r. str_or_none (res_trec_id r))
               (take (nat n)
                  (if filter_unknown self then filter known (client req) else client req)) \<and>
           map (\<lambda>r. cell r ''score'') (rows out) =
             map (\<lambda>r. Num (res_score r))
               (take (nat n)
                  (if filter_unknown self then filter known (client req) else client req)) \<and>
           (int (length (if filter_unknown self then filter known (client req)
                         else client req)) \<le> n
              \<longrightarrow> length (rows out) =
                    length (if filter_unknown self then filter known (client req)
                            else client req))"
    unfolding out by blast
next
  assume a: "length (rows topic) = 1 \<and> ''query'' \<in> set (columns topic) \<and>
      features self \<noteq> FlagSet {} \<and> sys_maxsize < n"
  then obtain r where r: "rows topic = [r]"
    by (cases "rows topic") auto
  from a obtain F where F: "effective_features self = Inr F"
    using effective_features_ok by blast
  from a assms show "\<exists>req. transform_query self client topic =
      ([req], Inl (ValueError ''Stop argument for islice() must be None or an integer: 0 <= x <= sys.maxsize.''))"
    by (simp add: transform_query_def r to_dict_records_single map_of_reindex Let_def F
        islice_def)
qed

theorem transform_query_result_cap_witness:
  "num_results example_retriever = Some 3 \<and>
   length (rows example_topic) = 1 \<and> ''query'' \<in> set (columns example_topic) \<and>
   features example_retriever \<noteq> FlagSet {} \<and> (0::int) \<le> 3 \<and> 3 \<le> sys_maxsize \<and>
   (\<exists>req out. transform_query example_retriever example_client example_topic = ([req], Inr out) \<and>
      length (rows out) \<le> 3 \<and>
      map (\<lambda>r. cell r ''score'') (rows out) = [Num 9, Num 7, Num 6]) \<and>
   sys_maxsize < 2 ^ 63 \<and>
   (\<exists>req e. transform_query (example_retriever\<lparr>num_results := Some (2 ^ 63)\<rparr>) example_client
      example_topic = ([req], Inl (ValueError e)))"
proof -
  let ?big = "example_retriever\<lparr>num_results := Some (2 ^ 63)\<rparr>"
  have n: "num_results example_retriever = Some 3" "num_results ?big = Some (2 ^ 63)"
    by (simp_all add: example_defs)
  have h: "length (rows example_topic) = 1 \<and> ''query'' \<in> set (columns example_topic) \<and>
      features example_retriever \<noteq> FlagSet {} \<and> (0::int) \<le> 3 \<and> 3 \<le> sys_maxsize"
    by (simp add: example_defs sys_maxsize_def)
  have hb: "length (rows example_topic) = 1 \<and> ''query'' \<in> set (columns example_topic) \<and>
      features ?big \<noteq> FlagSet {} \<and> sys_maxsize < 2 ^ 63"
    by (simp add: example_defs sys_maxsize_def)
  note th = transform_query_result_cap [OF n(1), of example_topic example_client]
  note thb = transform_query_result_cap [OF n(2), of example_topic example_client]
  from th h obtain req out where
    t: "transform_query example_retriever example_client example_topic = ([req], Inr out)"
    by blast
  with th have l: "int (length (rows out)) \<le> 3"
    by blast
  from th t obtain req' where "map (\<lambda>r. cell r ''score'') (rows out) =
      map (\<lambda>r. Num (res_score r))
        (take (nat 3) (if filter_unknown example_retriever
                       then filter known (example_client req') else example_client req'))"
    by blast
  then have s: "map (\<lambda>r. cell r ''score'') (rows out) = [Num 9, Num 7, Num 6]"
    by (simp add: example_defs known_def)
  from thb hb obtain reqb where
    "transform_query ?big example_client example_topic =
      ([reqb], Inl (ValueError ''Stop argument for islice() must be None or an integer: 0 <= x <= sys.maxsize.''))"
    by blast
  then have b: "\<exists>req e. transform_query ?big example_client example_topic =
      ([req], Inl (ValueError e))"
    by blast
  from l have l': "length (rows out) \<le> 3"
    by simp
  from t l' s have e: "\<exists>req out.
      transform_query example_retriever example_client example_topic = ([req], Inr out) \<and>
      length (rows out) \<le> 3 \<and>
      map (\<lambda>r. cell r ''score'') (rows out) = [Num 9, Num 7, Num 6]"
    by (intro exI [of _ req] exI [of _ out] conjI)
  from h have h': "length (rows example_topic) = 1" "''query'' \<in> set (columns example_topic)"
    "features example_retriever \<noteq> FlagSet {}" "(0::int) \<le> 3" "3 \<le> sys_maxsize"
    by blast+
  from hb have hb': "sys_maxsize < 2 ^ 63"
    by blast
  from n(1) h' e hb' b show ?thesis
    by (intro conjI)
qed

text \<open>
  Claim C10. With the features configured as the empty set, every per-query transform
  call raises and no call of the search client is made; on a one-row topic with a query
  column the exception is the \<^verbatim>\<open>TypeError\<close> of \<^verbatim>\<open>reduce\<close> on an empty set.
\<close>

theorem transform_query_empty_feature_set:
  assumes "features self = FlagSet {}"
  shows "fst (transform_query self client topic) = [] \<and>
     (\<exists>e. snd (transform_query self client topic) = Inl e) \<and>
     (length (rows topic) = 1 \<and> ''query'' \<in> set (columns topic) \<longrightarrow>
        snd (transform_query self client topic) =
          Inl (TypeError ''reduce() of empty iterable with no initial value''))"
proof -
  note e = effective_features_empty [OF assms]
  have 1: "fst (transform_query self client topic) = []"
    by (simp add: transform_query_def e Let_def split: list.splits option.splits)
  have 2: "\<exists>e. snd (transform_query self client topic) = Inl e"
    by (simp add: transform_query_def e Let_def split: list.splits option.splits)
  have 3: "snd (transform_query self client topic) =
          Inl (TypeError ''reduce() of empty iterable with no initial value'')"
    if "length (rows topic) = 1 \<and> ''query'' \<in> set (columns topic)"
  proof -
    from that obtain r where r: "rows topic = [r]"
      by (cases "rows topic") auto
    with that show ?thesis
      by (simp add: transform_query_def e Let_def to_dict_records_single map_of_reindex)
  qed
  from 1 2 3 show ?thesis by blast
qed

theorem transform_query_empty_feature_set_witness:
  "features (example_retriever\<lparr>features := FlagSet {}\<rparr>) = FlagSet {} \<and>
   transform_query (example_retriever\<lparr>features := FlagSet {}\<rparr>) example_client example_topic =
     ([], Inl (TypeError ''reduce() of empty iterable with no initial value''))"
  using transform_query_empty_feature_set
    [of "example_retriever\<lparr>features := FlagSet {}\<rparr>" example_client example_topic]
  by (simp add: example_defs prod_eq_iff)

subsection \<open>Evaluating the batch transform, the flattener and the hash\<close>

lemmas transform_defs =
  transform_def progress_apply_def groupby_qid_def concat_frames_def reset_index_def
  sort_values_descending_def add_ranks_def drop_column_def rank_first_def outranks_def
  FIRST_RANK_def

lemmas query_defs =
  transform_query_def to_dict_records_def reindex_def cell_def effective_page_size_def
  effective_features_def make_request_def islice_def known_def DataFrame_of_records_def
  merge_result_def set_item_def str_or_none_def flag_contains_def sys_maxsize_def

text \<open>
  Claim C1. The sorted table is computed and dropped: the returned rows are in the order
  of the concatenation. For two queries whose only results score 1 and 2, the output
  rows carry the scores 1, 2 in that order, which is not descending.
\<close>

theorem transform_rows_not_sorted:
  "\<exists>out. transform example_retriever score_client (Table two_topics) =
     ([search ''key'' (Str ''python library'') (OneIndex ClueWeb12) False 3,
       search ''key'' (Str ''search engine'') (OneIndex ClueWeb12) False 3], Inr out) \<and>
     map (\<lambda>r. cell r ''qid'') (rows out) = [Str ''1'', Str ''2''] \<and>
     map (\<lambda>r. cell r ''score'') (rows out) = [Num 1, Num 2] \<and>
     map (\<lambda>r. cell r ''rank'') (rows out) = [IntV 0, IntV 0]"
  by (simp add: transform_defs example_defs query_defs Feature_defs Let_def)


text \<open>
  Claim C2. A table with the query-id and query-text columns and no rows is passed to
  the per-query transform, whose one-row guard rejects it: the batch transform raises
  and returns no table.
\<close>

theorem transform_empty_table_raises:
  "transform self client (Table \<lparr>columns = [''qid'', ''query''], rows = []\<rparr>) =
     ([], Inl (RuntimeError ''Can only transform one query at a time.''))"
  by (simp add: transform_def transform_query_def)

text \<open>
  Claim C4. Hashing a configuration whose features are a set raises a \<^verbatim>\<open>TypeError\<close>:
  with one member the sorted members are a list, which cannot be hashed; with two
  members, in either declaration order, sorting compares two flags.
\<close>

theorem dunder_hash_feature_set_raises:
  "dunder_hash H (self\<lparr>features := FlagSet {UUID}\<rparr>) = Inl (TypeError ''unhashable type: list'') \<and>
   dunder_hash H (self\<lparr>features := FlagSet {UUID, INDEX}\<rparr>) =
     Inl (TypeError ''< not supported between instances of Feature and Feature'') \<and>
   dunder_hash H (self\<lparr>features := FlagSet {INDEX, UUID}\<rparr>) =
     Inl (TypeError ''< not supported between instances of Feature and Feature'')"
  by (simp add: dunder_hash_def hash_key_def sorted_features_def builtin_hash_def Feature_defs Let_def)

text \<open>
  Claim C5. With the features configured as the set holding the group flag
  \<^verbatim>\<open>TARGET\<close>, flattening adds none of the columns of its members; with the flag value
  \<^verbatim>\<open>TARGET\<close> itself it adds both.
\<close>

theorem merge_result_set_of_group_flag:
  "map fst (merge_result (self\<lparr>features := FlagSet {TARGET}\<rparr>) [(''qid'', q)] result) =
     [''qid'', ''docno'', ''score''] \<and>
   map fst (merge_result (self\<lparr>features := Flag TARGET\<rparr>) [(''qid'', q)] result) =
     [''qid'', ''docno'', ''score'', ''target_hostname'', ''target_uri'']"
  by (simp add: merge_result_def set_item_def Feature_defs flag_contains_def Let_def)

subsection \<open>Ranks\<close>























subsection \<open>The batch transform\<close>


lemma apply_groups_Inl:
  "apply_groups f gs = (calls, Inl e) \<Longrightarrow> \<exists>g \<in> set gs. \<exists>c. f g = (c, Inl e)"
  by (induction gs arbitrary: calls) (auto split: prod.splits sum.splits)


lemma transform_query_Inl:
  assumes "transform_query self client topic = (c, Inl e)"
  shows "e = RuntimeError ''Can only transform one query at a time.'' \<or>
     (\<exists>m. e = IndexError m) \<or> (\<exists>m. e = KeyError m) \<or> (\<exists>m. e = TypeError m) \<or>
     (\<exists>m. e = ValueError m)"
proof (cases "length (rows topic) = 1")
  case False
  with assms show ?thesis
    by (simp add: transform_query_def)
next
  case True
  then obtain r where r: "rows topic = [r]"
    by (cases "rows topic") auto
  have f: "effective_features self = Inl x \<Longrightarrow> \<exists>m. x = TypeError m" for x
    by (auto simp: effective_features_def reduce_or_def split: features_cfg.splits list.splits)
  have i: "islice xs n = Inl x \<Longrightarrow> \<exists>m. x = ValueError m" for x n and xs :: "search_result list"
    by (auto simp: islice_def split: if_splits)
  from assms show ?thesis
    by (auto simp: transform_query_def r to_dict_records_single Let_def
        split: option.splits sum.splits dest: f i)
qed



lemma progress_apply_if:
  "(if b then progress_apply f gs else apply_groups f gs) = apply_groups f gs"
  unfolding progress_apply_def by simp

lemma sort_values_descending_Inl:
  "sort_values_descending df c = Inl e \<Longrightarrow> e = KeyError c"
  by (auto simp: sort_values_descending_def split: if_splits)

lemma transform_Table_Inl:
  assumes "transform self client (Table topics) = (calls, Inl e)"
  shows "(\<not> {''qid'', ''query''} \<subseteq> set (columns topics) \<and>
           e = RuntimeError ''Needs qid and query columns.'' \<and> calls = []) \<or>
         ({''qid'', ''query''} \<subseteq> set (columns topics) \<and>
           (e = RuntimeError ''Can only transform one query at a time.'' \<or>
            (\<exists>m. e = IndexError m) \<or> (\<exists>m. e = KeyError m) \<or> (\<exists>m. e = TypeError m) \<or>
            (\<exists>m. e = ValueError m)))"
proof (cases "{''qid'', ''query''} \<subseteq> set (columns topics)")
  case False
  with assms show ?thesis
    by (auto simp: transform_def)
next
  case cols: True
  show ?thesis
  proof (cases "length (rows topics) = 0")
    case True
    with assms cols have "transform_query self client topics = (calls, Inl e)"
      by (simp add: transform_def)
    from transform_query_Inl [OF this] cols show ?thesis by blast
  next
    case False
    show ?thesis
    proof (cases "apply_groups (transform_query self client) (groupby_qid topics)")
      case (Pair c res)
      show ?thesis
      proof (cases res)
        case (Inl x)
        with assms cols False Pair have "x = e"
          by (simp add: transform_def progress_apply_if)
        with Pair Inl apply_groups_Inl [of "transform_query self client" "groupby_qid topics" c e]
        obtain g c' where "transform_query self client g = (c', Inl e)"
          by blast
        from transform_query_Inl [OF this] cols show ?thesis by blast
      next
        case (Inr ds)
        with assms cols False Pair have "\<exists>df. sort_values_descending df ''score'' = Inl e"
          by (auto simp: transform_def progress_apply_if Let_def split: sum.splits)
        then have "e = KeyError ''score''"
          using sort_values_descending_Inl by blast
        with cols show ?thesis by blast
      qed
    qed
  qed
qed

text \<open>
  Claim C9, as stated, fails: a table that has both required columns and is no
  input-shape error still raises a descriptive error when two of its rows carry the
  same query id.
\<close>

theorem transform_well_shaped_raises:
  "{''qid'', ''query''} \<subseteq> set (columns repeated_topics) \<and>
   snd (transform example_retriever example_client (Table repeated_topics)) =
     Inl (RuntimeError ''Can only transform one query at a time.'')"
  by (simp add: transform_defs example_defs transform_query_def cell_def)

text \<open>
  Claim C9, amended. The batch transform raises \<^verbatim>\<open>Can only transform dataframes.\<close>
  exactly when its input is not a table, and \<^verbatim>\<open>Needs qid and query columns.\<close> exactly
  when its input is a table without the query-id or the query-text column; in both cases
  no call of the search client is made. Other exceptions can be raised on a table that
  has both columns.
\<close>

theorem transform_input_shape_errors:
  "(snd (transform self client inp) = Inl (RuntimeError ''Can only transform dataframes.'')
      \<longleftrightarrow> inp = NotATable) \<and>
   (snd (transform self client inp) = Inl (RuntimeError ''Needs qid and query columns.'')
      \<longleftrightarrow> (\<exists>topics. inp = Table topics \<and> \<not> {''qid'', ''query''} \<subseteq> set (columns topics))) \<and>
   (inp = NotATable \<or>
    (\<exists>topics. inp = Table topics \<and> \<not> {''qid'', ''query''} \<subseteq> set (columns topics))
      \<longrightarrow> fst (transform self client inp) = [])"
proof (cases inp)
  case NotATable
  then show ?thesis by (simp add: transform_def)
next
  case (Table topics)
  show ?thesis
  proof (cases "{''qid'', ''query''} \<subseteq> set (columns topics)")
    case False
    with Table show ?thesis by (simp add: transform_def)
  next
    case True
    have "e \<noteq> RuntimeError ''Can only transform dataframes.'' \<and>
          e \<noteq> RuntimeError ''Needs qid and query columns.''"
      if "snd (transform self client (Table topics)) = Inl e" for e
    proof -
      from that have "transform self client (Table topics) =
          (fst (transform self client (Table topics)), Inl e)"
        by (simp add: prod_eq_iff)
      from transform_Table_Inl [OF this] True show ?thesis
        by auto
    qed
    with Table True show ?thesis by auto
  qed
qed

theorem transform_input_shape_errors_witness:
  "transform example_retriever example_client NotATable =
     ([], Inl (RuntimeError ''Can only transform dataframes.'')) \<and>
   \<not> {''qid'', ''query''} \<subseteq> set (columns (example_topic\<lparr>columns := [''qid'']\<rparr>)) \<and>
   transform example_retriever example_client (Table (example_topic\<lparr>columns := [''qid'']\<rparr>)) =
     ([], Inl (RuntimeError ''Needs qid and query columns.''))"
  using transform_input_shape_errors [of example_retriever example_client NotATable]
    transform_input_shape_errors [of example_retriever example_client
      "Table (example_topic\<lparr>columns := [''qid'']\<rparr>)"]
  by (simp add: prod_eq_iff example_topic_def)


































end
